theory Spec2Isabelle
  imports Main "HOL-Library.State_Monad"
begin

section \<open>The callback utility of \<open>util/callback.h\<close>\<close>

text \<open>
  \<open>util::Callback<R(Args...)>\<close> is a pair of a \<open>void *\<close> context and a pointer to a
  function \<open>R (*)(void *, Args...)\<close>. The helpers \<open>util::Function\<close> and \<open>util::Bind\<close>
  build such a pair from a free function or from an object and one of its member functions.

  The argument pack \<open>Args...\<close> is one value of type \<open>'a\<close>, the return type \<open>R\<close> is \<open>'r\<close>.
  Pointers are addresses; address \<open>0\<close> is \<open>nullptr\<close>.
\<close>

subsection \<open>Pointers\<close>

type_synonym addr = nat

definition nullptr :: addr where
  "nullptr = 0"

text \<open>
  A value of type \<open>Functor = R (*)(Context, Args...)\<close>. Two such pointers are equal exactly
  when they designate the same function, so a pointer is the name of the function it
  designates:
  \<^item> \<open>functor_nullptr\<close>: the null pointer;
  \<^item> \<open>Function_lambda\<close>: the lambda of \<open>util::Function\<close> (one per signature);
  \<^item> \<open>BindHelper_lambda F\<close>: the lambda of the non-const \<open>_BindHelper<F>\<close>, one per
    member function \<open>F\<close>;
  \<^item> \<open>BindHelper_const_lambda F\<close>: the lambda of the const \<open>_BindHelper<F>\<close>;
  \<^item> \<open>other_functor n\<close>: any other pointer value, as somebody constructing a callback by
    hand may pass.
  Member functions (the template argument \<open>F\<close>) are named by numbers.
\<close>

datatype functor_ptr =
    functor_nullptr
  | Function_lambda
  | BindHelper_lambda nat
  | BindHelper_const_lambda nat
  | other_functor nat

subsection \<open>The class \<open>util::Callback\<close>\<close>

record Callback =
  cb_context :: addr
  cb_functor :: functor_ptr

text \<open>The constructor \<open>Callback(Context context, Functor functor)\<close>.\<close>

definition Callback_ctor :: "addr \<Rightarrow> functor_ptr \<Rightarrow> Callback" where
  "Callback_ctor ctx fn = \<lparr>cb_context = ctx, cb_functor = fn\<rparr>"

text \<open>The constructor \<open>Callback(Functor functor)\<close>: a callback with no context.\<close>

definition Callback_functor :: "functor_ptr \<Rightarrow> Callback" where
  "Callback_functor fn = Callback_ctor nullptr fn"

text \<open>The defaulted constructor \<open>Callback()\<close>: both members take their initialisers.\<close>

definition Callback_default :: Callback where
  "Callback_default = \<lparr>cb_context = nullptr, cb_functor = functor_nullptr\<rparr>"

text \<open>The defaulted copy constructor copies the two members.\<close>

definition Callback_copy :: "Callback \<Rightarrow> Callback" where
  "Callback_copy other = \<lparr>cb_context = cb_context other, cb_functor = cb_functor other\<rparr>"

text \<open>
  The defaulted \<open>operator=\<close> assigns the two members of \<open>other\<close> to those of \<open>this\<close>; the
  result is the value of \<open>*this\<close> afterwards.
\<close>

definition operator_assign :: "Callback \<Rightarrow> Callback \<Rightarrow> Callback" where
  "operator_assign this other =
     this\<lparr>cb_context := cb_context other, cb_functor := cb_functor other\<rparr>"

definition IsSet :: "Callback \<Rightarrow> bool" where
  "IsSet this \<longleftrightarrow> cb_functor this \<noteq> functor_nullptr"

definition operator_bool :: "Callback \<Rightarrow> bool" where
  "operator_bool this \<longleftrightarrow> IsSet this"

definition operator_eq :: "Callback \<Rightarrow> Callback \<Rightarrow> bool" where
  "operator_eq this other \<longleftrightarrow>
     cb_context this = cb_context other \<and> cb_functor this = cb_functor other"

definition operator_neq :: "Callback \<Rightarrow> Callback \<Rightarrow> bool" where
  "operator_neq this other \<longleftrightarrow> \<not> operator_eq this other"

subsection \<open>Value initialisation \<open>R{}\<close>\<close>

text \<open>
  \<open>R{}\<close> is the constant \<open>default\<close> of the class of that name: \<open>false\<close> for \<open>bool\<close>,
  zero for the integers, and the one value of \<open>unit\<close>.
\<close>

instantiation bool :: default
begin
definition default_bool :: bool where
  "default_bool = False"
instance ..
end

instantiation int :: default
begin
definition default_int :: int where
  "default_int = 0"
instance ..
end

instantiation nat :: default
begin
definition default_nat :: nat where
  "default_nat = 0"
instance ..
end

subsection \<open>The program around the callback\<close>

text \<open>
  What a call does: it returns a value and leaves a state, or it throws and leaves a
  state, or its behaviour is undefined (a call through a pointer that designates no
  function, a member access through a pointer to no object).
\<close>

datatype ('r, 's, 'x) outcome =
    Returned 'r 's
  | Raised 'x 's
  | Undefined_behaviour

text \<open>
  The memory the targets work on: the objects by address, the callback objects by the
  place where each is stored, and everything else.
\<close>

record ('obj, 'g) store =
  heap :: "addr \<rightharpoonup> 'obj"
  callback_objects :: "nat \<Rightarrow> Callback"
  globals :: 'g

text \<open>
  The functions entered during an invocation, in order, each with the arguments it
  received: a functor with its context, a free function, a member function with its
  \<open>this\<close> pointer.
\<close>

datatype 'a entry =
    Functor_entry functor_ptr addr 'a
  | Function_entry addr 'a
  | Member_entry nat addr 'a
  | Const_member_entry nat addr 'a

type_synonym ('a, 'r, 'obj, 'g, 'x) target =
  "'a \<Rightarrow> ('obj, 'g) store \<Rightarrow> ('r, ('obj, 'g) store, 'x) outcome"

text \<open>
  The code of the program that uses the header, for one signature \<open>R(Args...)\<close>:
  \<^item> the free functions of that signature, by address;
  \<^item> the non-const member functions, which receive \<open>this\<close>;
  \<^item> the const member functions, which receive \<open>this\<close> as well: what such a function
    does to the state, a write to a \<open>mutable\<close> member included, is its own;
  \<^item> the functions of type \<open>Functor\<close> written by hand, which receive the context.
\<close>

record ('a, 'r, 'obj, 'g, 'x) program =
  free_functions :: "addr \<rightharpoonup> ('a, 'r, 'obj, 'g, 'x) target"
  member_functions :: "nat \<Rightarrow> addr \<Rightarrow> ('a, 'r, 'obj, 'g, 'x) target"
  const_member_functions :: "nat \<Rightarrow> addr \<Rightarrow> ('a, 'r, 'obj, 'g, 'x) target"
  other_functors :: "nat \<rightharpoonup> (addr \<Rightarrow> ('a, 'r, 'obj, 'g, 'x) target)"

type_synonym ('a, 'r, 'obj, 'g, 'x) run =
  "('r, ('obj, 'g) store, 'x) outcome \<times> 'a entry list"

text \<open>Entering a function: the entry is recorded before what the function does.\<close>

definition entered :: "'a entry \<Rightarrow> ('a, 'r, 'obj, 'g, 'x) run \<Rightarrow> ('a, 'r, 'obj, 'g, 'x) run" where
  "entered e r = (fst r, e # snd r)"

text \<open>The call \<open>function(args...)\<close> through a pointer to a free function.\<close>

definition call_function ::
  "('a, 'r, 'obj, 'g, 'x) program \<Rightarrow> addr \<Rightarrow> 'a \<Rightarrow> ('obj, 'g) store \<Rightarrow> ('a, 'r, 'obj, 'g, 'x) run" where
  "call_function prog function args s =
     (case free_functions prog function of
        None \<Rightarrow> (Undefined_behaviour, [])
      | Some f \<Rightarrow> (f args s, [Function_entry function args]))"

text \<open>The call \<open>(item->*F)(args...)\<close> of a non-const member function.\<close>

definition call_member ::
  "('a, 'r, 'obj, 'g, 'x) program \<Rightarrow> nat \<Rightarrow> addr \<Rightarrow> 'a \<Rightarrow> ('obj, 'g) store \<Rightarrow> ('a, 'r, 'obj, 'g, 'x) run" where
  "call_member prog F item args s =
     (member_functions prog F item args s, [Member_entry F item args])"

text \<open>
  The call \<open>(item->*F)(args...)\<close> of a const member function through \<open>const T *\<close>.
\<close>

definition call_const_member ::
  "('a, 'r, 'obj, 'g, 'x) program \<Rightarrow> nat \<Rightarrow> addr \<Rightarrow> 'a \<Rightarrow> ('obj, 'g) store \<Rightarrow> ('a, 'r, 'obj, 'g, 'x) run" where
  "call_const_member prog F item args s =
     (const_member_functions prog F item args s, [Const_member_entry F item args])"

subsection \<open>The lambdas of the helpers\<close>

text \<open>
  The lambda of \<open>util::Function\<close>:
  \<open>return reinterpret_cast<R(*)(Args...)>(context)(args...);\<close>
\<close>

definition Function_lambda_body ::
  "('a, 'r, 'obj, 'g, 'x) program \<Rightarrow> addr \<Rightarrow> 'a \<Rightarrow> ('obj, 'g) store \<Rightarrow> ('a, 'r, 'obj, 'g, 'x) run" where
  "Function_lambda_body prog ctx args s = call_function prog ctx args s"

text \<open>
  The lambda of the non-const \<open>_BindHelper<F>\<close>:
  \<open>return (static_cast<T *>(context)->*F)(args...);\<close>
\<close>

definition BindHelper_lambda_body ::
  "('a, 'r, 'obj, 'g, 'x) program \<Rightarrow> nat \<Rightarrow> addr \<Rightarrow> 'a \<Rightarrow> ('obj, 'g) store \<Rightarrow> ('a, 'r, 'obj, 'g, 'x) run" where
  "BindHelper_lambda_body prog F ctx args s = call_member prog F ctx args s"

text \<open>
  The lambda of the const \<open>_BindHelper<F>\<close>:
  \<open>return (static_cast<const T *>(context)->*F)(args...);\<close>
\<close>

definition BindHelper_const_lambda_body ::
  "('a, 'r, 'obj, 'g, 'x) program \<Rightarrow> nat \<Rightarrow> addr \<Rightarrow> 'a \<Rightarrow> ('obj, 'g) store \<Rightarrow> ('a, 'r, 'obj, 'g, 'x) run" where
  "BindHelper_const_lambda_body prog F ctx args s = call_const_member prog F ctx args s"

text \<open>
  The call \<open>functor(context, args...)\<close> through a pointer of type \<open>Functor\<close>: the
  function the pointer designates is entered with the context and the arguments.
\<close>

fun call_functor ::
  "('a, 'r, 'obj, 'g, 'x) program \<Rightarrow> functor_ptr \<Rightarrow> addr \<Rightarrow> 'a \<Rightarrow> ('obj, 'g) store \<Rightarrow> ('a, 'r, 'obj, 'g, 'x) run" where
  "call_functor prog functor_nullptr ctx args s = (Undefined_behaviour, [])"
| "call_functor prog Function_lambda ctx args s =
     entered (Functor_entry Function_lambda ctx args) (Function_lambda_body prog ctx args s)"
| "call_functor prog (BindHelper_lambda F) ctx args s =
     entered (Functor_entry (BindHelper_lambda F) ctx args)
       (BindHelper_lambda_body prog F ctx args s)"
| "call_functor prog (BindHelper_const_lambda F) ctx args s =
     entered (Functor_entry (BindHelper_const_lambda F) ctx args)
       (BindHelper_const_lambda_body prog F ctx args s)"
| "call_functor prog (other_functor n) ctx args s =
     (case other_functors prog n of
        None \<Rightarrow> (Undefined_behaviour, [])
      | Some f \<Rightarrow> (f ctx args s, [Functor_entry (other_functor n) ctx args]))"

subsection \<open>Invocation\<close>

text \<open>
  \<open>operator()\<close>: an unset callback returns \<open>R{}\<close>; a set one calls its functor with
  its context and the arguments it was given.
\<close>

definition invoke ::
  "('a, 'r::default, 'obj, 'g, 'x) program \<Rightarrow> Callback \<Rightarrow> 'a \<Rightarrow> ('obj, 'g) store \<Rightarrow> ('a, 'r, 'obj, 'g, 'x) run" where
  "invoke prog this args s =
     (if \<not> IsSet this then (Returned default s, [])
      else call_functor prog (cb_functor this) (cb_context this) args s)"

subsection \<open>The helpers\<close>

text \<open>\<open>util::Function(function)\<close>: the function pointer is the context.\<close>

definition Function :: "addr \<Rightarrow> Callback" where
  "Function function = Callback_ctor function Function_lambda"

text \<open>
  The two overloads of \<open>_BindHelper<F>(item, function)\<close>: the address of \<open>item\<close> is the
  context; \<open>function\<close> only resolves the types and is not used.
\<close>

definition BindHelper :: "nat \<Rightarrow> addr \<Rightarrow> nat \<Rightarrow> Callback" where
  "BindHelper F item function = Callback_ctor item (BindHelper_lambda F)"

definition BindHelper_const :: "nat \<Rightarrow> addr \<Rightarrow> nat \<Rightarrow> Callback" where
  "BindHelper_const F item function = Callback_ctor item (BindHelper_const_lambda F)"

text \<open>The two overloads of \<open>util::Bind<F>(item)\<close>.\<close>

definition Bind :: "nat \<Rightarrow> addr \<Rightarrow> Callback" where
  "Bind F item = BindHelper F item F"

definition Bind_const :: "nat \<Rightarrow> addr \<Rightarrow> Callback" where
  "Bind_const F item = BindHelper_const F item F"

subsection \<open>Copies and assignments of callback objects\<close>

text \<open>
  The callback objects of a program, by the place where each is stored. A copy
  construction \<open>Callback y(x)\<close> and an assignment \<open>x = other\<close> write one place.
\<close>

type_synonym callbacks = "nat \<Rightarrow> Callback"

definition copy_construct :: "nat \<Rightarrow> nat \<Rightarrow> callbacks \<Rightarrow> callbacks" where
  "copy_construct y x v = v(y := Callback_copy (v x))"

definition assign :: "nat \<Rightarrow> Callback \<Rightarrow> callbacks \<Rightarrow> callbacks" where
  "assign x other v = v(x := operator_assign (v x) other)"

subsection \<open>The member functions on a callback object in memory\<close>

text \<open>
  A member function called on the callback object at place \<open>this\<close> of the store reads
  and writes the members of that object: \<open>this->context\<close> and \<open>this->functor\<close>.
\<close>

definition read_context :: "nat \<Rightarrow> (('obj, 'g) store, addr) state" where
  "read_context this = State (\<lambda>s. (cb_context (callback_objects s this), s))"

definition read_functor :: "nat \<Rightarrow> (('obj, 'g) store, functor_ptr) state" where
  "read_functor this = State (\<lambda>s. (cb_functor (callback_objects s this), s))"

definition write_context :: "nat \<Rightarrow> addr \<Rightarrow> (('obj, 'g) store, unit) state" where
  "write_context this v =
     State (\<lambda>s. ((), s\<lparr>callback_objects :=
       (callback_objects s)(this := (callback_objects s this)\<lparr>cb_context := v\<rparr>)\<rparr>))"

definition write_functor :: "nat \<Rightarrow> functor_ptr \<Rightarrow> (('obj, 'g) store, unit) state" where
  "write_functor this v =
     State (\<lambda>s. ((), s\<lparr>callback_objects :=
       (callback_objects s)(this := (callback_objects s this)\<lparr>cb_functor := v\<rparr>)\<rparr>))"

text \<open>\<open>IsSet()\<close>: \<open>return (this->functor != nullptr);\<close>\<close>

definition IsSet_at :: "nat \<Rightarrow> (('obj, 'g) store, bool) state" where
  "IsSet_at this = do {
     fn \<leftarrow> read_functor this;
     State_Monad.return (fn \<noteq> functor_nullptr)
   }"

text \<open>\<open>operator bool()\<close>: \<open>return this->IsSet();\<close>\<close>

definition operator_bool_at :: "nat \<Rightarrow> (('obj, 'g) store, bool) state" where
  "operator_bool_at this = IsSet_at this"

text \<open>
  \<open>operator==\<close>:
  \<open>return (this->context == other.context) && (this->functor == other.functor);\<close>
\<close>

definition operator_eq_at :: "nat \<Rightarrow> Callback \<Rightarrow> (('obj, 'g) store, bool) state" where
  "operator_eq_at this other = do {
     ctx \<leftarrow> read_context this;
     if ctx = cb_context other
     then do {
       fn \<leftarrow> read_functor this;
       State_Monad.return (fn = cb_functor other)
     }
     else State_Monad.return False
   }"

text \<open>\<open>operator!=\<close>: \<open>return !(*this == other);\<close>\<close>

definition operator_neq_at :: "nat \<Rightarrow> Callback \<Rightarrow> (('obj, 'g) store, bool) state" where
  "operator_neq_at this other = do {
     eq \<leftarrow> operator_eq_at this other;
     State_Monad.return (\<not> eq)
   }"

text \<open>The defaulted \<open>operator=\<close>: the two members are assigned, in their order.\<close>

definition operator_assign_at :: "nat \<Rightarrow> Callback \<Rightarrow> (('obj, 'g) store, unit) state" where
  "operator_assign_at this other = do {
     write_context this (cb_context other);
     write_functor this (cb_functor other)
   }"

text \<open>
  \<open>operator()\<close>: \<open>if (!this->IsSet()) return R{};\<close> and then
  \<open>return this->functor(this->context, std::forward<Argsp>(args)...);\<close> The functor
  runs on the store that holds the callback object it was called through.
\<close>

definition invoke_at ::
  "('a, 'r::default, 'obj, 'g, 'x) program \<Rightarrow> nat \<Rightarrow> 'a \<Rightarrow> ('obj, 'g) store \<Rightarrow> ('a, 'r, 'obj, 'g, 'x) run" where
  "invoke_at prog this args s =
     (case run_state (IsSet_at this) s of
        (is_set, s1) \<Rightarrow>
          if \<not> is_set then (Returned default s1, [])
          else
            (case run_state (read_functor this) s1 of
               (fn, s2) \<Rightarrow>
                 (case run_state (read_context this) s2 of
                    (ctx, s3) \<Rightarrow> call_functor prog fn ctx args s3)))"

subsection \<open>How parameters taken by value are initialised\<close>

text \<open>
  An argument expression is an lvalue or an rvalue. A parameter taken by value is
  initialised from an lvalue by the copy constructor and from an rvalue by the move
  constructor (by the copy constructor again where the type has none). The parameters
  \<open>Args...\<close> are taken by value here; a parameter of reference type is bound and
  constructs nothing.
\<close>

datatype category = lvalue | rvalue

datatype construction = copy_constructed | move_constructed

fun initialise :: "category \<Rightarrow> construction" where
  "initialise lvalue = copy_constructed"
| "initialise rvalue = move_constructed"

text \<open>
  The category of the arguments from which the parameters of an entered function were
  initialised, where \<open>c\<close> is the category of the arguments of \<open>operator()\<close> at its call site:
  \<^item> the functor's, in \<open>this->functor(this->context, std::forward<Argsp>(args)...)\<close>: the
    forwarded arguments have the category the caller's have;
  \<^item> a free function's, in \<open>reinterpret_cast<R(*)(Args...)>(context)(args...)\<close>, and a
    member function's, in \<open>(static_cast<T *>(context)->*F)(args...)\<close>: the lambda's own
    parameters \<open>args\<close> are named, so they are lvalues.
\<close>

fun parameters_from :: "category \<Rightarrow> 'a entry \<Rightarrow> category" where
  "parameters_from c (Functor_entry fn ctx args) = c"
| "parameters_from c (Function_entry f args) = lvalue"
| "parameters_from c (Member_entry F this args) = lvalue"
| "parameters_from c (Const_member_entry F this args) = lvalue"

text \<open>The constructions of the arguments during a run, in order, and how many are copies.\<close>

definition constructions :: "category \<Rightarrow> 'a entry list \<Rightarrow> construction list" where
  "constructions c log = map (\<lambda>e. initialise (parameters_from c e)) log"

definition copies :: "category \<Rightarrow> 'a entry list \<Rightarrow> nat" where
  "copies c log = count_list (constructions c log) copy_constructed"

subsection \<open>What a call leaves\<close>

text \<open>The state after a call that returned or threw.\<close>

fun final_store :: "('r, 's, 'x) outcome \<Rightarrow> 's option" where
  "final_store (Returned r s) = Some s"
| "final_store (Raised x s) = Some s"
| "final_store Undefined_behaviour = None"

text \<open>
  A non-const member function that works on its own object only: it reads the object at
  \<open>this\<close>, returns a value and writes the object back at \<open>this\<close>.
\<close>

definition on_object :: "('obj \<Rightarrow> 'a \<Rightarrow> 'r \<times> 'obj) \<Rightarrow> addr \<Rightarrow> ('a, 'r, 'obj, 'g, 'x) target" where
  "on_object m this args s =
     (case heap s this of
        None \<Rightarrow> Undefined_behaviour
      | Some obj \<Rightarrow> Returned (fst (m obj args)) (s\<lparr>heap := (heap s)(this \<mapsto> snd (m obj args))\<rparr>))"

text \<open>A const member function that reads its own object only and writes nothing.\<close>

definition reading :: "('obj \<Rightarrow> 'a \<Rightarrow> 'r) \<Rightarrow> addr \<Rightarrow> ('a, 'r, 'obj, 'g, 'x) target" where
  "reading m this args s =
     (case heap s this of
        None \<Rightarrow> Undefined_behaviour
      | Some obj \<Rightarrow> Returned (m obj args) s)"

subsection \<open>Small programs\<close>

text \<open>
  A program with the free function \<open>bool positive(int x) { return x > 0; }\<close> at address
  \<open>100\<close>, and two functors written by hand that both return \<open>true\<close>.
\<close>

definition positive :: "(int, bool, nat, unit, unit) target" where
  "positive x s = Returned (0 < x) s"

definition positive_program :: "(int, bool, nat, unit, unit) program" where
  "positive_program =
     \<lparr>free_functions = [100 \<mapsto> positive],
      member_functions = (\<lambda>F this x s. Undefined_behaviour),
      const_member_functions = (\<lambda>F this x s. Undefined_behaviour),
      other_functors = [1 \<mapsto> (\<lambda>ctx x s. Returned True s), 2 \<mapsto> (\<lambda>ctx x s. Returned True s)]\<rparr>"

text \<open>
  A program with a class of counters: the object is its count, a \<open>mutable int\<close>. Member
  function \<open>0\<close> is \<open>int increment() { return ++count; }\<close>, member function \<open>1\<close> is
  \<open>int get() const { return count; }\<close>, and member function \<open>2\<close> is
  \<open>int next() const { return count++; }\<close>.
\<close>

definition increment :: "int \<Rightarrow> unit \<Rightarrow> int \<times> int" where
  "increment n u = (n + 1, n + 1)"

definition get_count :: "int \<Rightarrow> unit \<Rightarrow> int" where
  "get_count n u = n"

definition next_count :: "int \<Rightarrow> unit \<Rightarrow> int \<times> int" where
  "next_count n u = (n, n + 1)"

definition counter_program :: "(unit, int, int, unit, unit) program" where
  "counter_program =
     \<lparr>free_functions = Map.empty,
      member_functions = (\<lambda>F. on_object increment),
      const_member_functions = (\<lambda>F. if F = 2 then on_object next_count else reading get_count),
      other_functors = Map.empty\<rparr>"

text \<open>
  A state with one counter at address \<open>200\<close>, and a state with no object; in both every
  callback object is unset.
\<close>

definition counter_at_200 :: "int \<Rightarrow> (int, unit) store" where
  "counter_at_200 n =
     \<lparr>heap = [200 \<mapsto> n], callback_objects = (\<lambda>place. Callback_default), globals = ()\<rparr>"

definition no_objects :: "(nat, unit) store" where
  "no_objects =
     \<lparr>heap = Map.empty, callback_objects = (\<lambda>place. Callback_default), globals = ()\<rparr>"

text \<open>
  Callback objects, all unset but the one at place \<open>0\<close>, which holds
  \<open>util::Function(positive)\<close>.
\<close>

definition one_callback :: callbacks where
  "one_callback = (\<lambda>place. Callback_default)(0 := Function 100)"

text \<open>
  A program with the free function \<open>positive\<close> and, at address \<open>101\<close>, the free function
  \<open>bool stop(int) { subscriber = Callback(); return true; }\<close>, where \<open>subscriber\<close> is
  the callback object at place \<open>0\<close>; and a state in which that callback object holds
  \<open>util::Function(f)\<close>.
\<close>

definition stop :: "(int, bool, nat, unit, unit) target" where
  "stop x s = Returned True (snd (run_state (operator_assign_at 0 Callback_default) s))"

definition stopping_program :: "(int, bool, nat, unit, unit) program" where
  "stopping_program =
     \<lparr>free_functions = [100 \<mapsto> positive, 101 \<mapsto> stop],
      member_functions = (\<lambda>F this x s. Undefined_behaviour),
      const_member_functions = (\<lambda>F this x s. Undefined_behaviour),
      other_functors = Map.empty\<rparr>"

definition subscribed :: "addr \<Rightarrow> (nat, unit) store" where
  "subscribed f =
     \<lparr>heap = Map.empty,
      callback_objects = (\<lambda>place. Callback_default)(0 := Function f),
      globals = ()\<rparr>"

section \<open>Properties\<close>

subsection \<open>Invocation\<close>

text \<open>
  C3. A default-constructed callback is not set, converts to \<open>false\<close>, and its invocation
  with any arguments returns \<open>R{}\<close> normally: the state is the one before the call, no
  function was entered, and the outcome is neither an exception nor undefined behaviour.
\<close>

theorem default_constructed_invoke:
  "\<not> IsSet Callback_default \<and> \<not> operator_bool Callback_default \<and>
   invoke prog Callback_default args s = (Returned default s, [])"
  by (simp add: IsSet_def operator_bool_def Callback_default_def invoke_def)

text \<open>
  C1. Where \<open>f\<close> is the address of a free function with body \<open>body\<close>, invoking
  \<open>util::Function(f)\<close> with \<open>args\<close> has the outcome of \<open>body\<close> on \<open>args\<close> in the caller's
  state (the value returned and the state left, or the exception), which is the outcome
  of the direct call \<open>f(args)\<close>; the functions entered are the lambda and then \<open>f\<close>, so
  \<open>f\<close> is entered with \<open>args\<close> exactly once.
\<close>

theorem Function_invoke:
  assumes "free_functions prog f = Some body"
  shows "invoke prog (Function f) args s =
           (body args s, [Functor_entry Function_lambda f args, Function_entry f args]) \<and>
         call_function prog f args s = (body args s, [Function_entry f args]) \<and>
         count_list (snd (invoke prog (Function f) args s)) (Function_entry f args) = 1"
  using assms
  by (simp add: invoke_def Function_def Callback_ctor_def IsSet_def entered_def
      Function_lambda_body_def call_function_def)

theorem Function_invoke_witness:
  "invoke positive_program (Function 100) 5 no_objects =
     (Returned True no_objects, [Functor_entry Function_lambda 100 5, Function_entry 100 5]) \<and>
   fst (invoke positive_program (Function 100) (- 1) no_objects) = Returned False no_objects \<and>
   fst (invoke positive_program Callback_default 7 no_objects) = Returned False no_objects"
proof -
  have f: "free_functions positive_program 100 = Some positive"
    by (simp add: positive_program_def)
  have "invoke positive_program (Function 100) 5 no_objects =
          (positive 5 no_objects, [Functor_entry Function_lambda 100 5, Function_entry 100 5])"
    using Function_invoke [OF f, of 5 no_objects] by simp
  moreover have "fst (invoke positive_program (Function 100) (- 1) no_objects) =
          positive (- 1) no_objects"
    using Function_invoke [OF f, of "- 1" no_objects] by simp
  moreover have "fst (invoke positive_program Callback_default 7 no_objects) =
          Returned False no_objects"
    by (simp add: invoke_def IsSet_def Callback_default_def default_bool_def)
  ultimately show ?thesis
    by (simp add: positive_def)
qed

text \<open>
  C2. Invoking \<open>util::Bind<F>(item)\<close> with \<open>args\<close> has the outcome of the non-const member
  function \<open>F\<close> called with \<open>this = &item\<close> and \<open>args\<close> in the caller's state, which is the
  outcome of the direct call \<open>item.F(args)\<close>; the functions entered are the lambda and
  then \<open>F\<close>, so \<open>F\<close> is entered exactly once. Where \<open>F\<close> works on its own object and the
  object at \<open>&item\<close> is \<open>obj\<close>, the state after the invocation holds at \<open>&item\<close> the object
  that \<open>F\<close> made of \<open>obj\<close>, and every other address holds what it held.
\<close>

theorem Bind_invoke:
  "invoke prog (Bind F item) args s =
     (member_functions prog F item args s,
      [Functor_entry (BindHelper_lambda F) item args, Member_entry F item args]) \<and>
   call_member prog F item args s =
     (member_functions prog F item args s, [Member_entry F item args]) \<and>
   count_list (snd (invoke prog (Bind F item) args s)) (Member_entry F item args) = 1 \<and>
   (member_functions prog F = on_object m \<and> heap s item = Some obj \<longrightarrow>
      fst (invoke prog (Bind F item) args s) =
        Returned (fst (m obj args)) (s\<lparr>heap := (heap s)(item \<mapsto> snd (m obj args))\<rparr>))"
  by (simp add: invoke_def Bind_def BindHelper_def Callback_ctor_def IsSet_def entered_def
      BindHelper_lambda_body_def call_member_def on_object_def)

text \<open>
  The counter bound at address \<open>200\<close> and invoked three times from count \<open>0\<close> returns
  \<open>1\<close>, \<open>2\<close> and \<open>3\<close>, and the count at address \<open>200\<close> is then \<open>3\<close>.
\<close>

theorem Bind_invoke_witness:
  "fst (invoke counter_program (Bind 0 200) () (counter_at_200 0)) = Returned 1 (counter_at_200 1) \<and>
   fst (invoke counter_program (Bind 0 200) () (counter_at_200 1)) = Returned 2 (counter_at_200 2) \<and>
   fst (invoke counter_program (Bind 0 200) () (counter_at_200 2)) = Returned 3 (counter_at_200 3) \<and>
   heap (counter_at_200 3) 200 = Some 3"
proof -
  have m: "member_functions counter_program 0 = on_object increment"
    by (simp add: counter_program_def)
  have step: "fst (invoke counter_program (Bind 0 200) () (counter_at_200 n)) =
      Returned (n + 1) (counter_at_200 (n + 1))" for n
  proof -
    have h: "heap (counter_at_200 n) 200 = Some n"
      by (simp add: counter_at_200_def)
    from Bind_invoke [of counter_program 0 200 "()" "counter_at_200 n" increment n] m h
    show ?thesis
      by (simp add: increment_def counter_at_200_def on_object_def)
  qed
  show ?thesis
    using step [of 0] step [of 1] step [of 2] by (simp add: counter_at_200_def)
qed

text \<open>
  C7, as the code has it. \<open>util::Bind<F>(item)\<close> over a const object and a const member
  function \<open>F\<close> gives a set callback whose context is \<open>&item\<close>. Its invocation with \<open>args\<close>
  has the outcome of \<open>F\<close> called with \<open>this = &item\<close> and \<open>args\<close> in the caller's state; the
  functions entered are the lambda and then \<open>F\<close>, once. The lambda writes nothing: the
  object is after the invocation as \<open>F\<close> left it. Where \<open>F\<close> only reads the object at
  \<open>&item\<close>, the state is the one before the call; where \<open>F\<close> writes its own object, as a
  const member function does to a \<open>mutable\<close> member, the object at \<open>&item\<close> is the one \<open>F\<close>
  wrote.
\<close>

theorem Bind_const_invoke:
  "IsSet (Bind_const F item) \<and> cb_context (Bind_const F item) = item \<and>
   invoke prog (Bind_const F item) args s =
     (const_member_functions prog F item args s,
      [Functor_entry (BindHelper_const_lambda F) item args, Const_member_entry F item args]) \<and>
   call_const_member prog F item args s =
     (const_member_functions prog F item args s, [Const_member_entry F item args]) \<and>
   count_list (snd (invoke prog (Bind_const F item) args s)) (Const_member_entry F item args) = 1 \<and>
   (const_member_functions prog F = reading m \<and> heap s item = Some obj \<longrightarrow>
      fst (invoke prog (Bind_const F item) args s) = Returned (m obj args) s) \<and>
   (const_member_functions prog F = on_object w \<and> heap s item = Some obj \<longrightarrow>
      fst (invoke prog (Bind_const F item) args s) =
        Returned (fst (w obj args)) (s\<lparr>heap := (heap s)(item \<mapsto> snd (w obj args))\<rparr>))"
  by (simp add: invoke_def Bind_const_def BindHelper_const_def Callback_ctor_def IsSet_def
      entered_def BindHelper_const_lambda_body_def call_const_member_def reading_def
      on_object_def)

theorem Bind_const_invoke_witness:
  "IsSet (Bind_const 1 200) \<and>
   invoke counter_program (Bind_const 1 200) () (counter_at_200 7) =
     (Returned 7 (counter_at_200 7),
      [Functor_entry (BindHelper_const_lambda 1) 200 (), Const_member_entry 1 200 ()]) \<and>
   heap (counter_at_200 7) 200 = Some 7"
proof -
  have m: "const_member_functions counter_program 1 = reading get_count"
    by (simp add: counter_program_def)
  have h: "heap (counter_at_200 7) 200 = Some 7"
    by (simp add: counter_at_200_def)
  from Bind_const_invoke [of 1 200 counter_program "()" "counter_at_200 7" get_count 7] m h
  show ?thesis
    by (simp add: get_count_def reading_def)
qed

text \<open>
  C7 as stated fails: bound to the counter at address \<open>200\<close>, the const member function
  \<open>next\<close> is invoked on a count of \<open>7\<close>, returns \<open>7\<close> and leaves the count \<open>8\<close>.
\<close>

theorem Bind_const_mutable_member:
  "IsSet (Bind_const 2 200) \<and>
   heap (counter_at_200 7) 200 = Some 7 \<and>
   fst (invoke counter_program (Bind_const 2 200) () (counter_at_200 7)) =
     Returned 7 (counter_at_200 8) \<and>
   heap (counter_at_200 8) 200 = Some 8"
  by (simp add: invoke_def Bind_const_def BindHelper_const_def Callback_ctor_def IsSet_def
      entered_def BindHelper_const_lambda_body_def call_const_member_def counter_program_def
      on_object_def next_count_def counter_at_200_def)

text \<open>
  The member functions on a callback object in memory return what the member functions
  on its value return.
\<close>

lemma run_IsSet_at: "run_state (IsSet_at this) s = (IsSet (callback_objects s this), s)"
  by (simp add: IsSet_at_def read_functor_def IsSet_def)

lemma run_operator_eq_at:
  "run_state (operator_eq_at this other) s = (operator_eq (callback_objects s this) other, s)"
  by (simp add: operator_eq_at_def read_context_def read_functor_def operator_eq_def)

lemma invoke_at_invoke:
  "invoke_at prog this args s = invoke prog (callback_objects s this) args s"
  by (simp add: invoke_at_def run_IsSet_at read_functor_def read_context_def invoke_def)

text \<open>Whatever the functor is, at most two constructions, the second of them a copy.\<close>

lemma constructions_bounded:
  "constructions c (snd (call_functor prog fn ctx args s)) = [] \<or>
   constructions c (snd (call_functor prog fn ctx args s)) = [initialise c] \<or>
   constructions c (snd (call_functor prog fn ctx args s)) = [initialise c, copy_constructed]"
  by (cases fn)
    (simp_all add: constructions_def entered_def Function_lambda_body_def call_function_def
      BindHelper_lambda_body_def call_member_def BindHelper_const_lambda_body_def
      call_const_member_def split: option.splits)

text \<open>
  C4, as the code has it. The invocation of a set callback with \<open>args\<close> is the call of its
  functor with its context and \<open>args\<close>, and the result of that call is the result of the
  invocation; so it is for a callback built by hand from a context and a non-null
  functor. For each kind of functor the call is the one the functor stands for: a
  function written by hand, the lambda of \<open>util::Function\<close> calling the function at the
  context, the lambdas of \<open>_BindHelper\<close> calling the member function on the object at
  the context. Nothing is stored: a callback is its context and its functor and no
  more, and \<open>operator()\<close> on a callback object in memory hands the functor the caller's
  state and returns what the functor returns. \<open>operator()\<close> itself constructs the
  functor's parameters once from the forwarded arguments, a copy for an lvalue and a
  move for an rvalue; the lambdas of the helpers pass their parameters on as lvalues,
  so the target's parameters are copied once more. There are never more than these two
  constructions.
\<close>

theorem invoke_set:
  "(IsSet this \<longrightarrow>
      invoke prog this args s = call_functor prog (cb_functor this) (cb_context this) args s) \<and>
   (fn \<noteq> functor_nullptr \<longrightarrow>
      invoke prog (Callback_ctor ctx fn) args s = call_functor prog fn ctx args s) \<and>
   (other_functors prog n = Some f \<longrightarrow>
      invoke prog (Callback_ctor ctx (other_functor n)) args s =
        (f ctx args s, [Functor_entry (other_functor n) ctx args])) \<and>
   (free_functions prog ctx = Some body \<longrightarrow>
      invoke prog (Callback_ctor ctx Function_lambda) args s =
        (body args s, [Functor_entry Function_lambda ctx args, Function_entry ctx args])) \<and>
   invoke prog (Callback_ctor ctx (BindHelper_lambda F)) args s =
     (member_functions prog F ctx args s,
      [Functor_entry (BindHelper_lambda F) ctx args, Member_entry F ctx args]) \<and>
   invoke prog (Callback_ctor ctx (BindHelper_const_lambda F)) args s =
     (const_member_functions prog F ctx args s,
      [Functor_entry (BindHelper_const_lambda F) ctx args, Const_member_entry F ctx args]) \<and>
   this = Callback_ctor (cb_context this) (cb_functor this) \<and>
   (IsSet (callback_objects s place) \<longrightarrow>
      invoke_at prog place args s =
        call_functor prog (cb_functor (callback_objects s place))
          (cb_context (callback_objects s place)) args s) \<and>
   (other_functors prog n = Some f \<longrightarrow>
      constructions c (snd (invoke prog (Callback_ctor ctx (other_functor n)) args s)) =
        [initialise c]) \<and>
   (free_functions prog ctx = Some body \<longrightarrow>
      constructions c (snd (invoke prog (Callback_ctor ctx Function_lambda) args s)) =
        [initialise c, copy_constructed]) \<and>
   constructions c (snd (invoke prog (Callback_ctor ctx (BindHelper_lambda F)) args s)) =
     [initialise c, copy_constructed] \<and>
   constructions c (snd (invoke prog (Callback_ctor ctx (BindHelper_const_lambda F)) args s)) =
     [initialise c, copy_constructed] \<and>
   (constructions c (snd (invoke prog this args s)) = [] \<or>
    constructions c (snd (invoke prog this args s)) = [initialise c] \<or>
    constructions c (snd (invoke prog this args s)) = [initialise c, copy_constructed])"
proof -
  have set: "IsSet this \<longrightarrow>
      invoke prog this args s = call_functor prog (cb_functor this) (cb_context this) args s"
    by (simp add: invoke_def)
  have by_hand: "fn \<noteq> functor_nullptr \<longrightarrow>
      invoke prog (Callback_ctor ctx fn) args s = call_functor prog fn ctx args s"
    by (simp add: invoke_def Callback_ctor_def IsSet_def)
  have other: "other_functors prog n = Some f \<longrightarrow>
      invoke prog (Callback_ctor ctx (other_functor n)) args s =
        (f ctx args s, [Functor_entry (other_functor n) ctx args])"
    by (simp add: invoke_def Callback_ctor_def IsSet_def)
  have free_function: "free_functions prog ctx = Some body \<longrightarrow>
      invoke prog (Callback_ctor ctx Function_lambda) args s =
        (body args s, [Functor_entry Function_lambda ctx args, Function_entry ctx args])"
    by (simp add: invoke_def Callback_ctor_def IsSet_def entered_def Function_lambda_body_def
        call_function_def)
  have member: "invoke prog (Callback_ctor ctx (BindHelper_lambda F)) args s =
      (member_functions prog F ctx args s,
       [Functor_entry (BindHelper_lambda F) ctx args, Member_entry F ctx args])"
    by (simp add: invoke_def Callback_ctor_def IsSet_def entered_def BindHelper_lambda_body_def
        call_member_def)
  have const_member: "invoke prog (Callback_ctor ctx (BindHelper_const_lambda F)) args s =
      (const_member_functions prog F ctx args s,
       [Functor_entry (BindHelper_const_lambda F) ctx args, Const_member_entry F ctx args])"
    by (simp add: invoke_def Callback_ctor_def IsSet_def entered_def
        BindHelper_const_lambda_body_def call_const_member_def)
  have two_members: "this = Callback_ctor (cb_context this) (cb_functor this)"
    by (simp add: Callback_ctor_def)
  have in_memory: "IsSet (callback_objects s place) \<longrightarrow>
      invoke_at prog place args s =
        call_functor prog (cb_functor (callback_objects s place))
          (cb_context (callback_objects s place)) args s"
    by (simp add: invoke_at_invoke invoke_def)
  have other_c: "other_functors prog n = Some f \<longrightarrow>
      constructions c (snd (invoke prog (Callback_ctor ctx (other_functor n)) args s)) =
        [initialise c]"
    using other by (simp add: constructions_def)
  have free_function_c: "free_functions prog ctx = Some body \<longrightarrow>
      constructions c (snd (invoke prog (Callback_ctor ctx Function_lambda) args s)) =
        [initialise c, copy_constructed]"
    using free_function by (simp add: constructions_def)
  have member_c: "constructions c
      (snd (invoke prog (Callback_ctor ctx (BindHelper_lambda F)) args s)) =
        [initialise c, copy_constructed]"
    by (simp add: member constructions_def)
  have const_member_c: "constructions c
      (snd (invoke prog (Callback_ctor ctx (BindHelper_const_lambda F)) args s)) =
        [initialise c, copy_constructed]"
    by (simp add: const_member constructions_def)
  have bounded: "constructions c (snd (invoke prog this args s)) = [] \<or>
      constructions c (snd (invoke prog this args s)) = [initialise c] \<or>
      constructions c (snd (invoke prog this args s)) = [initialise c, copy_constructed]"
  proof (cases "IsSet this")
    case True
    with set constructions_bounded [of c prog "cb_functor this" "cb_context this" args s]
    show ?thesis
      by simp
  next
    case False
    then show ?thesis
      by (simp add: invoke_def constructions_def)
  qed
  from set by_hand other free_function member const_member two_members in_memory other_c
    free_function_c member_c const_member_c bounded
  show ?thesis
    by (intro conjI)
qed

theorem invoke_set_witness:
  "IsSet (Callback_ctor 42 (other_functor 1)) \<and>
   invoke positive_program (Callback_ctor 42 (other_functor 1)) (- 3) no_objects =
     (Returned True no_objects, [Functor_entry (other_functor 1) 42 (- 3)]) \<and>
   constructions lvalue
     (snd (invoke positive_program (Callback_ctor 42 (other_functor 1)) (- 3) no_objects)) =
     [copy_constructed] \<and>
   invoke positive_program (Callback_ctor 100 Function_lambda) 5 no_objects =
     (Returned True no_objects, [Functor_entry Function_lambda 100 5, Function_entry 100 5]) \<and>
   constructions rvalue
     (snd (invoke positive_program (Callback_ctor 100 Function_lambda) 5 no_objects)) =
     [move_constructed, copy_constructed]"
proof -
  have f: "other_functors positive_program 1 = Some (\<lambda>ctx x s. Returned True s)"
    by (simp add: positive_program_def)
  have g: "free_functions positive_program 100 = Some positive"
    by (simp add: positive_program_def)
  have set: "IsSet (Callback_ctor 42 (other_functor 1))"
    by (simp add: IsSet_def Callback_ctor_def)
  note by_hand = invoke_set [of "Callback_ctor 42 (other_functor 1)" positive_program "- 3"
      no_objects "other_functor 1" 42 1 "\<lambda>ctx x s. Returned True s" positive 0 0 lvalue]
  note through_lambda = invoke_set [of "Callback_ctor 100 Function_lambda" positive_program 5
      no_objects Function_lambda 100 1 "\<lambda>ctx x s. Returned True s" positive 0 0 rvalue]
  from by_hand f have run1: "invoke positive_program (Callback_ctor 42 (other_functor 1)) (- 3)
      no_objects = (Returned True no_objects, [Functor_entry (other_functor 1) 42 (- 3)])"
    by blast
  from by_hand f have c1: "constructions lvalue
      (snd (invoke positive_program (Callback_ctor 42 (other_functor 1)) (- 3) no_objects)) =
      [initialise lvalue]"
    by blast
  from through_lambda g have "invoke positive_program (Callback_ctor 100 Function_lambda) 5
      no_objects =
      (positive 5 no_objects, [Functor_entry Function_lambda 100 5, Function_entry 100 5])"
    by blast
  then have run2: "invoke positive_program (Callback_ctor 100 Function_lambda) 5 no_objects =
      (Returned True no_objects, [Functor_entry Function_lambda 100 5, Function_entry 100 5])"
    by (simp add: positive_def)
  from through_lambda g have c2: "constructions rvalue
      (snd (invoke positive_program (Callback_ctor 100 Function_lambda) 5 no_objects)) =
      [initialise rvalue, copy_constructed]"
    by blast
  from set run1 c1 run2 c2 show ?thesis
    by simp
qed

text \<open>
  C4 as stated fails: the callback made by \<open>util::Function\<close> from \<open>positive\<close>, invoked with
  an lvalue, copies the argument twice.
\<close>

theorem Function_copies_twice:
  "IsSet (Function 100) \<and>
   constructions lvalue (snd (invoke positive_program (Function 100) 5 no_objects)) =
     [copy_constructed, copy_constructed] \<and>
   copies lvalue (snd (invoke positive_program (Function 100) 5 no_objects)) = 2"
  by (simp add: copies_def constructions_def invoke_def Function_def Callback_ctor_def
      IsSet_def entered_def Function_lambda_body_def call_function_def positive_program_def)

subsection \<open>Equality\<close>

text \<open>
  C5. \<open>a == b\<close> holds exactly when the contexts of \<open>a\<close> and \<open>b\<close> are equal and their
  functors are equal, and \<open>a != b\<close> is its negation. What the functors do plays no part:
  the two functors written by hand in the program above do the same, and callbacks that
  differ in them only are unequal.
\<close>

theorem operator_eq_structural:
  "(operator_eq a b \<longleftrightarrow> cb_context a = cb_context b \<and> cb_functor a = cb_functor b) \<and>
   (operator_neq a b \<longleftrightarrow> \<not> operator_eq a b) \<and>
   fst (invoke positive_program (Callback_ctor ctx (other_functor 1)) args s) =
     fst (invoke positive_program (Callback_ctor ctx (other_functor 2)) args s) \<and>
   operator_neq (Callback_ctor ctx (other_functor 1)) (Callback_ctor ctx (other_functor 2))"
  by (simp add: operator_eq_def operator_neq_def invoke_def IsSet_def Callback_ctor_def
      positive_program_def)

text \<open>
  C8. For every function pointer \<open>f\<close>, the null pointer included, \<open>util::Function(f)\<close> has
  \<open>f\<close> as its context and the lambda, which is not null, as its functor, and is set;
  \<open>util::Function(nullptr)\<close> is set with a null context.
\<close>

theorem Function_is_set:
  "cb_context (Function f) = f \<and> cb_functor (Function f) = Function_lambda \<and>
   cb_functor (Function f) \<noteq> functor_nullptr \<and> IsSet (Function f) \<and>
   cb_context (Function nullptr) = nullptr \<and> IsSet (Function nullptr)"
  by (simp add: Function_def Callback_ctor_def IsSet_def)

text \<open>
  C6, as the code has it. Two callbacks made by \<open>util::Function\<close> from the same function are
  equal. Two callbacks bound with the same member function to objects at different
  addresses are unequal. A set callback is unequal to every unset one, a
  default-constructed one included. Two default-constructed callbacks are equal, and two
  unset callbacks are equal exactly when their contexts are equal.
\<close>

theorem equality_of_callbacks:
  "operator_eq (Function f) (Function f) \<and> \<not> operator_neq (Function f) (Function f) \<and>
   (item1 \<noteq> item2 \<longrightarrow>
      \<not> operator_eq (Bind F item1) (Bind F item2) \<and>
      operator_neq (Bind F item1) (Bind F item2) \<and>
      \<not> operator_eq (Bind_const F item1) (Bind_const F item2) \<and>
      operator_neq (Bind_const F item1) (Bind_const F item2)) \<and>
   (IsSet a \<and> \<not> IsSet b \<longrightarrow>
      \<not> operator_eq a b \<and> \<not> operator_eq b a \<and> operator_neq a b \<and> operator_neq b a) \<and>
   (IsSet a \<longrightarrow> \<not> operator_eq a Callback_default \<and> operator_neq a Callback_default) \<and>
   operator_eq Callback_default Callback_default \<and>
   (\<not> IsSet c \<and> \<not> IsSet d \<longrightarrow> (operator_eq c d \<longleftrightarrow> cb_context c = cb_context d))"
  by (auto simp add: operator_eq_def operator_neq_def IsSet_def Function_def Bind_def
      BindHelper_def Bind_const_def BindHelper_const_def Callback_ctor_def Callback_default_def)

theorem equality_of_callbacks_witness:
  "operator_eq (Function 100) (Function 100) \<and>
   operator_neq (Bind 0 200) (Bind 0 201) \<and>
   operator_neq (Bind_const 1 200) (Bind_const 1 201) \<and>
   IsSet (Function 100) \<and> \<not> IsSet (Callback_functor functor_nullptr) \<and>
   operator_neq (Function 100) (Callback_functor functor_nullptr) \<and>
   operator_neq (Function 100) Callback_default \<and>
   operator_eq (Callback_functor functor_nullptr) Callback_default"
proof -
  have set: "IsSet (Function 100)"
    by (simp add: IsSet_def Function_def Callback_ctor_def)
  have unset: "\<not> IsSet (Callback_functor functor_nullptr)" "\<not> IsSet Callback_default"
    by (simp_all add: IsSet_def Callback_functor_def Callback_ctor_def Callback_default_def)
  have items: "(200::nat) \<noteq> 201"
    by simp
  have ctx: "cb_context (Callback_functor functor_nullptr) = cb_context Callback_default"
    by (simp add: Callback_functor_def Callback_ctor_def Callback_default_def)
  from equality_of_callbacks [of 100 200 201 0 "Function 100" "Callback_functor functor_nullptr"
      "Callback_functor functor_nullptr" Callback_default]
    equality_of_callbacks [of 100 200 201 1 "Function 100" "Callback_functor functor_nullptr"
      "Callback_functor functor_nullptr" Callback_default]
    set unset items ctx
  show ?thesis
    by simp
qed

text \<open>
  C6 as stated fails: a callback built by hand from a non-null context and a null
  functor is unset, a default-constructed callback is unset, and the two are unequal.
\<close>

theorem unset_callbacks_unequal:
  "\<not> IsSet (Callback_ctor 1 functor_nullptr) \<and> \<not> IsSet Callback_default \<and>
   \<not> operator_eq (Callback_ctor 1 functor_nullptr) Callback_default \<and>
   operator_neq (Callback_ctor 1 functor_nullptr) Callback_default"
  by (simp add: IsSet_def operator_eq_def operator_neq_def Callback_ctor_def
      Callback_default_def nullptr_def)

subsection \<open>Copies\<close>

text \<open>A callback has no member but the two, so copying both gives the same callback.\<close>

lemma Callback_copy_same: "Callback_copy other = other"
  by (simp add: Callback_copy_def)

lemma operator_assign_other: "operator_assign this other = other"
  by (simp add: operator_assign_def)

text \<open>
  C9. Where \<open>y\<close> is another place than \<open>x\<close>, after the copy construction of \<open>y\<close> from \<open>x\<close> the
  callback at \<open>y\<close> has the context and the functor of the one at \<open>x\<close>, and its invocation
  is that of the one at \<open>x\<close>. After an assignment of any \<open>other\<close> to \<open>x\<close>, the callback at
  \<open>y\<close> and its invocation are still those of the original; after an assignment to \<open>y\<close>,
  so are the callback at \<open>x\<close> and its invocation.
\<close>

theorem copy_then_assign:
  assumes "x \<noteq> y"
  shows "copy_construct y x v y = v x \<and>
         copy_construct y x v x = v x \<and>
         operator_eq (copy_construct y x v y) (copy_construct y x v x) \<and>
         invoke prog (copy_construct y x v y) args s = invoke prog (v x) args s \<and>
         assign x other (copy_construct y x v) x = other \<and>
         assign x other (copy_construct y x v) y = v x \<and>
         invoke prog (assign x other (copy_construct y x v) y) args s =
           invoke prog (v x) args s \<and>
         assign y other (copy_construct y x v) y = other \<and>
         assign y other (copy_construct y x v) x = v x \<and>
         invoke prog (assign y other (copy_construct y x v) x) args s =
           invoke prog (v x) args s"
  using assms
  by (simp add: copy_construct_def assign_def Callback_copy_same operator_assign_other
      operator_eq_def)

theorem copy_then_assign_witness:
  "(0::nat) \<noteq> 1 \<and>
   fst (invoke positive_program (copy_construct 1 0 one_callback 1) 5 no_objects) =
     Returned True no_objects \<and>
   fst (invoke positive_program
         (assign 0 Callback_default (copy_construct 1 0 one_callback) 1) 5 no_objects) =
     Returned True no_objects \<and>
   fst (invoke positive_program
         (assign 0 Callback_default (copy_construct 1 0 one_callback) 0) 5 no_objects) =
     Returned False no_objects"
proof -
  have places: "(0::nat) \<noteq> 1"
    by simp
  have original: "fst (invoke positive_program (one_callback 0) 5 no_objects) =
      Returned True no_objects"
    by (simp add: one_callback_def invoke_def IsSet_def Function_def Callback_ctor_def
        entered_def Function_lambda_body_def call_function_def positive_program_def
        positive_def)
  have unset: "fst (invoke positive_program Callback_default 5 no_objects) =
      Returned False no_objects"
    by (simp add: invoke_def IsSet_def Callback_default_def default_bool_def)
  from copy_then_assign [OF places, of one_callback positive_program 5 no_objects
      Callback_default] original unset places
  show ?thesis
    by simp
qed

subsection \<open>Member function calls on a callback object in memory\<close>

text \<open>The assignment writes both members, so the object is then the one assigned.\<close>

lemma run_operator_assign_at:
  "run_state (operator_assign_at this other) s =
     ((), s\<lparr>callback_objects := (callback_objects s)(this := other)\<rparr>)"
  by (simp add: operator_assign_at_def write_context_def write_functor_def
      operator_assign_other [unfolded operator_assign_def])

text \<open>
  C10, as the code has it. \<open>IsSet()\<close>, the conversion to \<open>bool\<close>, \<open>==\<close> and \<open>!=\<close> return
  what they return on the value of the callback object and leave the store, every
  callback object in it, as it was; so does the invocation of an unset callback. The
  invocation of a set callback is the call of its functor on the caller's store, and
  itself writes nothing: a store that differs after it is the one the call of the
  functor left, so the callback keeps its context and its functor unless the code it
  runs assigns to it. An assignment makes the callback assigned to the one assigned,
  and leaves every other callback object.
\<close>

theorem callback_objects_after_calls:
  "run_state (IsSet_at this) s = (IsSet (callback_objects s this), s) \<and>
   run_state (operator_bool_at this) s = (operator_bool (callback_objects s this), s) \<and>
   run_state (operator_eq_at this other) s =
     (operator_eq (callback_objects s this) other, s) \<and>
   run_state (operator_neq_at this other) s =
     (operator_neq (callback_objects s this) other, s) \<and>
   invoke_at prog this args s = invoke prog (callback_objects s this) args s \<and>
   (\<not> IsSet (callback_objects s this) \<longrightarrow>
      invoke_at prog this args s = (Returned default s, [])) \<and>
   (IsSet (callback_objects s this) \<longrightarrow>
      invoke_at prog this args s =
        call_functor prog (cb_functor (callback_objects s this))
          (cb_context (callback_objects s this)) args s) \<and>
   (callback_objects s this = Function f \<and> free_functions prog f = Some body \<longrightarrow>
      fst (invoke_at prog this args s) = body args s) \<and>
   (final_store (fst (invoke_at prog this args s)) = Some s' \<and> s' \<noteq> s \<longrightarrow>
      IsSet (callback_objects s this) \<and>
      final_store (fst (call_functor prog (cb_functor (callback_objects s this))
        (cb_context (callback_objects s this)) args s)) = Some s') \<and>
   run_state (operator_assign_at this other) s =
     ((), s\<lparr>callback_objects := (callback_objects s)(this := other)\<rparr>) \<and>
   (place \<noteq> this \<longrightarrow>
      callback_objects (snd (run_state (operator_assign_at this other) s)) place =
        callback_objects s place)"
proof -
  have bool: "run_state (operator_bool_at this) s = (operator_bool (callback_objects s this), s)"
    by (simp add: operator_bool_at_def operator_bool_def run_IsSet_at)
  have neq: "run_state (operator_neq_at this other) s =
      (operator_neq (callback_objects s this) other, s)"
    by (simp add: operator_neq_at_def operator_neq_def run_operator_eq_at)
  have unset: "\<not> IsSet (callback_objects s this) \<longrightarrow>
      invoke_at prog this args s = (Returned default s, [])"
    by (simp add: invoke_at_invoke invoke_def)
  have set: "IsSet (callback_objects s this) \<longrightarrow>
      invoke_at prog this args s =
        call_functor prog (cb_functor (callback_objects s this))
          (cb_context (callback_objects s this)) args s"
    by (simp add: invoke_at_invoke invoke_def)
  have target: "callback_objects s this = Function f \<and> free_functions prog f = Some body \<longrightarrow>
      fst (invoke_at prog this args s) = body args s"
    by (simp add: invoke_at_invoke invoke_def Function_def Callback_ctor_def IsSet_def
        entered_def Function_lambda_body_def call_function_def)
  have changed: "final_store (fst (invoke_at prog this args s)) = Some s' \<and> s' \<noteq> s \<longrightarrow>
      IsSet (callback_objects s this) \<and>
      final_store (fst (call_functor prog (cb_functor (callback_objects s this))
        (cb_context (callback_objects s this)) args s)) = Some s'"
    by (cases "IsSet (callback_objects s this)") (auto simp add: invoke_at_invoke invoke_def)
  have others: "place \<noteq> this \<longrightarrow>
      callback_objects (snd (run_state (operator_assign_at this other) s)) place =
        callback_objects s place"
    by (simp add: run_operator_assign_at)
  from run_IsSet_at [of this s] bool run_operator_eq_at [of this other s] neq
    invoke_at_invoke [of prog this args s] unset set target changed
    run_operator_assign_at [of this other s] others
  show ?thesis
    by (intro conjI)
qed

theorem callback_objects_after_calls_witness:
  "callback_objects (subscribed 100) 0 = Function 100 \<and>
   IsSet (callback_objects (subscribed 100) 0) \<and>
   fst (invoke_at stopping_program 0 5 (subscribed 100)) = Returned True (subscribed 100) \<and>
   \<not> IsSet (callback_objects (subscribed 100) 1) \<and>
   invoke_at stopping_program 1 5 (subscribed 100) = (Returned False (subscribed 100), []) \<and>
   (1::nat) \<noteq> 0 \<and>
   callback_objects (snd (run_state (operator_assign_at 0 Callback_default) (subscribed 100))) 1 =
     callback_objects (subscribed 100) 1"
proof -
  have c0: "callback_objects (subscribed 100) 0 = Function 100"
    by (simp add: subscribed_def)
  have f: "free_functions stopping_program 100 = Some positive"
    by (simp add: stopping_program_def)
  have set0: "IsSet (callback_objects (subscribed 100) 0)"
    by (simp add: subscribed_def IsSet_def Function_def Callback_ctor_def)
  have unset1: "\<not> IsSet (callback_objects (subscribed 100) 1)"
    by (simp add: subscribed_def IsSet_def Callback_default_def)
  have places: "(1::nat) \<noteq> 0"
    by simp
  note all0 = callback_objects_after_calls [of 0 "subscribed 100" Callback_default
      stopping_program 5 100 positive "subscribed 100" 1]
  note all1 = callback_objects_after_calls [of 1 "subscribed 100" Callback_default
      stopping_program 5 100 positive "subscribed 100" 0]
  from all0 c0 f have "fst (invoke_at stopping_program 0 5 (subscribed 100)) =
      positive 5 (subscribed 100)"
    by blast
  then have run0: "fst (invoke_at stopping_program 0 5 (subscribed 100)) =
      Returned True (subscribed 100)"
    by (simp add: positive_def)
  from all1 unset1 have "invoke_at stopping_program 1 5 (subscribed 100) =
      (Returned default (subscribed 100), [])"
    by blast
  then have run1: "invoke_at stopping_program 1 5 (subscribed 100) =
      (Returned False (subscribed 100), [])"
    by (simp add: default_bool_def)
  from all0 places have assigned: "callback_objects
      (snd (run_state (operator_assign_at 0 Callback_default) (subscribed 100))) 1 =
        callback_objects (subscribed 100) 1"
    by blast
  from c0 set0 run0 unset1 run1 places assigned show ?thesis
    by (intro conjI)
qed

text \<open>What \<open>stop\<close> leaves: no callback object is set.\<close>

lemma stop_unsubscribes: "stop x (subscribed f) = Returned True no_objects"
proof -
  have "(\<lambda>place::nat. Callback_default)(0 := Function f, 0 := Callback_default) =
      (\<lambda>place. Callback_default)"
    by (rule ext) simp
  then show ?thesis
    by (simp add: stop_def run_operator_assign_at subscribed_def no_objects_def)
qed

text \<open>
  C10 as stated fails: the callback object at place \<open>0\<close> holds \<open>util::Function(stop)\<close>, and
  \<open>stop\<close> assigns \<open>Callback()\<close> to that object; it is set before its invocation and unset
  after it.
\<close>

theorem target_unsets_callback:
  "IsSet (callback_objects (subscribed 101) 0) \<and>
   fst (invoke_at stopping_program 0 5 (subscribed 101)) = Returned True no_objects \<and>
   \<not> IsSet (callback_objects no_objects 0) \<and>
   callback_objects no_objects 0 \<noteq> callback_objects (subscribed 101) 0"
proof -
  have c0: "callback_objects (subscribed 101) 0 = Function 101"
    by (simp add: subscribed_def)
  have c1: "callback_objects no_objects 0 = Callback_default"
    by (simp add: no_objects_def)
  have f: "free_functions stopping_program 101 = Some stop"
    by (simp add: stopping_program_def)
  have set: "IsSet (Function 101)" and unset: "\<not> IsSet Callback_default"
    and differ: "Callback_default \<noteq> Function 101"
    by (simp_all add: IsSet_def Function_def Callback_ctor_def Callback_default_def)
  have "fst (invoke_at stopping_program 0 5 (subscribed 101)) = stop 5 (subscribed 101)"
    using c0 f
    by (simp add: invoke_at_invoke invoke_def Function_def Callback_ctor_def IsSet_def
        entered_def Function_lambda_body_def call_function_def)
  then have run: "fst (invoke_at stopping_program 0 5 (subscribed 101)) = Returned True no_objects"
    by (simp only: stop_unsubscribes)
  from set unset differ run show ?thesis
    by (simp only: c0 c1 simp_thms)
qed

end
